theory Spec2Isabelle
  imports Main
begin

section \<open>Strings\<close>

text \<open>
  A Go string is modelled as a \<^typ>\<open>string\<close>, one \<^typ>\<open>char\<close> per byte. The functions
  of package \<open>strings\<close> and the conversion \<open>[]rune(s)\<close> that \<open>agent.go\<close> calls are
  modelled on single-byte (ASCII) text, where a byte is a character: \<open>[]rune(s)\<close> is
  then the list of the bytes of \<open>s\<close> and \<open>len([]rune(s))\<close> is \<^term>\<open>length s\<close>.
\<close>

definition isSpace :: "char \<Rightarrow> bool" where
  \<comment> \<open>the ASCII white space of \<open>unicode.IsSpace\<close>: tab, line feed, vertical tab, form feed,
      carriage return, space\<close>
  "isSpace c = (c \<in> {CHR 0x09, CHR 0x0A, CHR 0x0B, CHR 0x0C, CHR 0x0D, CHR '' ''})"

definition TrimSpace :: "string \<Rightarrow> string" where
  \<comment> \<open>\<open>strings.TrimSpace\<close>: leading and trailing white space removed\<close>
  "TrimSpace s = rev (dropWhile isSpace (rev (dropWhile isSpace s)))"

definition lowerChar :: "char \<Rightarrow> char" where
  \<comment> \<open>an upper-case ASCII letter becomes its lower-case letter, any other byte stays\<close>
  "lowerChar c =
     (case map_of (zip ''ABCDEFGHIJKLMNOPQRSTUVWXYZ'' ''abcdefghijklmnopqrstuvwxyz'') c of
        None \<Rightarrow> c
      | Some l \<Rightarrow> l)"

definition ToLower :: "string \<Rightarrow> string" where
  \<comment> \<open>\<open>strings.ToLower\<close>\<close>
  "ToLower s = map lowerChar s"

definition HasPrefix :: "string \<Rightarrow> string \<Rightarrow> bool" where
  \<comment> \<open>\<open>strings.HasPrefix(s, prefix)\<close>\<close>
  "HasPrefix s p = (length p \<le> length s \<and> take (length p) s = p)"

fun Contains :: "string \<Rightarrow> string \<Rightarrow> bool" where
  \<comment> \<open>\<open>strings.Contains(s, substr)\<close>: \<open>substr\<close> starts at some index of \<open>s\<close>\<close>
  "Contains [] t = (t = [])"
| "Contains (c # cs) t = (HasPrefix (c # cs) t \<or> Contains cs t)"

definition digitChar :: "nat \<Rightarrow> char" where
  "digitChar d = ''0123456789'' ! d"

fun natDigits :: "nat \<Rightarrow> string" where
  "natDigits n = (if n < 10 then [digitChar n] else natDigits (n div 10) @ [digitChar (n mod 10)])"

declare natDigits.simps [simp del]

definition Itoa :: "int \<Rightarrow> string" where
  \<comment> \<open>\<open>strconv.Itoa\<close>, and the verb \<open>%d\<close> of \<open>fmt\<close>: decimal digits after an optional minus sign\<close>
  "Itoa i = (if i < 0 then CHR ''-'' # natDigits (nat (- i)) else natDigits (nat i))"

section \<open>Clamping text\<close>

definition truncMarker :: "int \<Rightarrow> string" where
  \<comment> \<open>what the format \<open>"%s\n\n...<truncated %d chars>"\<close> puts after its \<open>%s\<close>\<close>
  "truncMarker extras = [CHR 0x0A, CHR 0x0A] @ ''...<truncated '' @ Itoa extras @ '' chars>''"

definition clampText :: "string \<Rightarrow> int \<Rightarrow> string" where
  "clampText s limit =
     (if limit \<le> 0 then ''''
      else if int (length s) \<le> limit then s
      else
        let runes = s;
            truncated = take (nat limit) runes;
            extras = int (length runes) - limit
        in truncated @ truncMarker extras)"

definition clampForLog :: "string \<Rightarrow> string" where
  "clampForLog s = clampText s 2000"

section \<open>Dangerous commands\<close>

definition danger :: "string list" where
  "danger = [''rm -rf /'', ''shutdown'', ''reboot'', ''sudo '', ''halt'']"

fun anyContains :: "string \<Rightarrow> string list \<Rightarrow> bool" where
  \<comment> \<open>the loop \<open>for _, token := range danger\<close>, returning at the first token found\<close>
  "anyContains lowered [] = False"
| "anyContains lowered (token # tokens) =
     (if Contains lowered token then True else anyContains lowered tokens)"

definition isDangerousCommand :: "string \<Rightarrow> bool" where
  "isDangerousCommand cmd = (let lowered = ToLower cmd in anyContains lowered danger)"

section \<open>The todo board\<close>

type_synonym error = string

definition maxToolResultChars :: int where "maxToolResultChars = 100000"
definition maxAgentIterations :: nat where "maxAgentIterations = 20"
definition maxTodoItems :: nat where "maxTodoItems = 20"

definition todoPendingColor :: string where
  "todoPendingColor = CHR 0x1B # ''[38;2;176;176;176m''"
definition todoProgressColor :: string where
  "todoProgressColor = CHR 0x1B # ''[38;2;120;200;255m''"
definition todoCompletedColor :: string where
  "todoCompletedColor = CHR 0x1B # ''[38;2;34;139;34m''"
definition strikethrough :: string where
  "strikethrough = CHR 0x1B # ''[9m''"
definition reset :: string where
  "reset = CHR 0x1B # ''[0m''"

definition ballotBox :: string where
  \<comment> \<open>the bytes of the ballot box U+2610 in UTF-8\<close>
  "ballotBox = [CHR 0xE2, CHR 0x98, CHR 0x90]"
definition ballotBoxX :: string where
  \<comment> \<open>the bytes of the ballot box with X U+2612 in UTF-8\<close>
  "ballotBoxX = [CHR 0xE2, CHR 0x98, CHR 0x92]"

fun strings_Join :: "string list \<Rightarrow> string \<Rightarrow> string" where
  \<comment> \<open>\<open>strings.Join(elems, sep)\<close>\<close>
  "strings_Join [] sep = ''''"
| "strings_Join [e] sep = e"
| "strings_Join (e # es) sep = e @ sep @ strings_Join es sep"

record TodoItem =
  ID :: string
  Content :: string
  Status :: string
  ActiveForm :: string

record TodoManager =
  items :: "TodoItem list"

text \<open>
  The loop of \<open>Update\<close> over the proposed items, with the set \<open>seenIDs\<close> and the counter
  \<open>inProgressCount\<close> as it runs; an early \<open>return "", err\<close> is the value \<open>Inl err\<close>. The
  assignment \<open>item.Status = status\<close> writes to the loop's copy of the element, which
  nothing reads afterwards, so it leaves no trace here.
\<close>

fun updateLoop :: "TodoItem list \<Rightarrow> string set \<Rightarrow> int \<Rightarrow> error + int" where
  "updateLoop [] seenIDs inProgressCount = Inr inProgressCount"
| "updateLoop (item # rest) seenIDs inProgressCount =
     (if ID item \<in> seenIDs then Inl (''duplicate todo id: '' @ ID item)
      else if TrimSpace (Content item) = '''' then Inl ''todo content cannot be empty''
      else if TrimSpace (ActiveForm item) = '''' then Inl ''todo activeForm cannot be empty''
      else
        let status = ToLower (Status item) in
        if status \<noteq> ''pending'' \<and> status \<noteq> ''in_progress'' \<and> status \<noteq> ''completed''
        then Inl ''status must be one of: pending, in_progress, completed''
        else updateLoop rest (insert (ID item) seenIDs)
               (if status = ''in_progress'' then inProgressCount + 1 else inProgressCount))"

definition renderLine :: "TodoItem \<Rightarrow> string" where
  "renderLine todo =
     (let mark = (if Status todo = ''completed'' then ballotBoxX else ballotBox) in
      if Status todo = ''completed''
      then todoCompletedColor @ strikethrough @ mark @ '' '' @ Content todo @ reset
      else if Status todo = ''in_progress''
      then todoProgressColor @ mark @ '' '' @ Content todo @ reset
      else todoPendingColor @ mark @ '' '' @ Content todo @ reset)"

definition render :: "TodoManager \<Rightarrow> string" where
  "render tm =
     (if length (items tm) = 0 then todoPendingColor @ ballotBox @ '' No todos yet'' @ reset
      else strings_Join (map renderLine (items tm)) [CHR 0x0A])"

definition Update :: "TodoManager \<Rightarrow> TodoItem list \<Rightarrow> (error + string) \<times> TodoManager" where
  \<comment> \<open>the result of the call and the board after it\<close>
  "Update tm its =
     (if length its > maxTodoItems
      then (Inl (''todo list is limited to '' @ Itoa (int maxTodoItems) @ '' items''), tm)
      else case updateLoop its {} 0 of
        Inl err \<Rightarrow> (Inl err, tm)
      | Inr inProgressCount \<Rightarrow>
          if inProgressCount > 1
          then (Inl ''only one task can be in_progress at a time'', tm)
          else let tm' = tm\<lparr>items := its\<rparr> in (Inr (render tm'), tm'))"

fun statsLoop :: "TodoItem list \<Rightarrow> int \<Rightarrow> int \<Rightarrow> int \<times> int" where
  "statsLoop [] completed inProgress = (completed, inProgress)"
| "statsLoop (todo # rest) completed inProgress =
     (if Status todo = ''completed'' then statsLoop rest (completed + 1) inProgress
      else if Status todo = ''in_progress'' then statsLoop rest completed (inProgress + 1)
      else statsLoop rest completed inProgress)"

definition stats :: "TodoManager \<Rightarrow> (string \<rightharpoonup> int)" where
  "stats tm =
     (case statsLoop (items tm) 0 0 of (completed, inProgress) \<Rightarrow>
        [''total'' \<mapsto> int (length (items tm)),
         ''completed'' \<mapsto> completed,
         ''in_progress'' \<mapsto> inProgress])"

definition todoBoard0 :: TodoManager where
  \<comment> \<open>the board at process start, \<open>todoBoard = &TodoManager{}\<close>\<close>
  "todoBoard0 = \<lparr>items = []\<rparr>"




definition inProgress :: "TodoItem \<Rightarrow> bool" where
  "inProgress item = (ToLower (Status item) = ''in_progress'')"





section \<open>Paths inside the workspace\<close>

text \<open>
  \<open>safePath\<close> rests on four functions of Go's package \<open>path/filepath\<close>, modelled here as
  that package documents them for Unix, where the separator is the slash and a path is
  absolute when it starts with one. \<open>Clean\<close> drops empty and \<open>.\<close> elements, lets a
  \<open>..\<close> element remove the element before it, drops a \<open>..\<close> that would climb above the
  root, and keeps the leading \<open>..\<close> elements of a relative path.
\<close>

definition IsAbs :: "string \<Rightarrow> bool" where
  "IsAbs path = HasPrefix path ''/''"

fun splitOn :: "char \<Rightarrow> string \<Rightarrow> string list" where
  \<comment> \<open>the pieces of a string between the occurrences of a separator\<close>
  "splitOn sep [] = [[]]"
| "splitOn sep (c # cs) =
     (if c = sep then [] # splitOn sep cs
      else case splitOn sep cs of
        [] \<Rightarrow> [[c]]
      | w # ws \<Rightarrow> (c # w) # ws)"

fun cleanLoop :: "bool \<Rightarrow> string list \<Rightarrow> string list \<Rightarrow> string list" where
  \<comment> \<open>the elements kept so far, last one first, while the remaining elements are read\<close>
  "cleanLoop rooted [] out = out"
| "cleanLoop rooted (e # es) out =
     (if e = '''' \<or> e = ''.'' then cleanLoop rooted es out
      else if e = ''..'' then
        (case out of
           prev # below \<Rightarrow>
             if prev \<noteq> ''..'' then cleanLoop rooted es below
             else if rooted then cleanLoop rooted es out
             else cleanLoop rooted es (''..'' # out)
         | [] \<Rightarrow>
             if rooted then cleanLoop rooted es out
             else cleanLoop rooted es (''..'' # out))
      else cleanLoop rooted es (e # out))"

definition Clean :: "string \<Rightarrow> string" where
  "Clean path =
     (if path = '''' then ''.''
      else
        let rooted = IsAbs path;
            elems = rev (cleanLoop rooted (splitOn CHR ''/'' path) []);
            out = (if rooted then ''/'' else '''') @ strings_Join elems ''/''
        in if out = '''' then ''.'' else out)"

fun filepath_Join :: "string list \<Rightarrow> string" where
  \<comment> \<open>\<open>filepath.Join\<close>: leading empty elements are skipped, the rest joined by slashes
      and cleaned; the empty string when every element is empty\<close>
  "filepath_Join [] = ''''"
| "filepath_Join (e # es) =
     (if e = '''' then filepath_Join es else Clean (strings_Join (e # es) ''/''))"

definition Abs :: "error + string \<Rightarrow> string \<Rightarrow> error + string" where
  \<comment> \<open>\<open>filepath.Abs\<close>; the first argument is what \<open>os.Getwd()\<close> returns\<close>
  "Abs getwd path =
     (if IsAbs path then Inr (Clean path)
      else case getwd of
        Inl err \<Rightarrow> Inl err
      | Inr wd \<Rightarrow> Inr (filepath_Join [wd, path]))"

definition safePath :: "error + string \<Rightarrow> string \<Rightarrow> string \<Rightarrow> error + string" where
  "safePath getwd workDir p =
     (let candidate = TrimSpace p in
      if candidate = '''' then Inl ''path required''
      else
        let joined = (if IsAbs candidate then Clean candidate
                      else filepath_Join [workDir, candidate])
        in case Abs getwd joined of
          Inl err \<Rightarrow> Inl err
        | Inr absPath \<Rightarrow>
            (case Abs getwd workDir of
               Inl err \<Rightarrow> Inl err
             | Inr workAbs \<Rightarrow>
                 if \<not> HasPrefix absPath (workAbs @ ''/'') \<and> absPath \<noteq> workAbs
                 then Inl ''path escapes workspace''
                 else Inr absPath))"

section \<open>Tool arguments\<close>

text \<open>
  The arguments of a tool call are a \<open>map[string]interface{}\<close>. A value of it is one of
  the dynamic types that the accessors of \<open>agent.go\<close> distinguish: a string, a
  \<open>float64\<close>, a \<open>json.Number\<close>, an \<open>int\<close>, or something else. A \<open>float64\<close> is
  modelled for whole numbers, given by their integer value, for which \<open>int(v)\<close> is that
  integer and \<open>strconv.FormatFloat(v, 'f', -1, 64)\<close> is its decimal digits; numbers with a
  fractional part are outside the model. The map is an association list read with
  \<^const>\<open>map_of\<close>, and the \<open>nil\<close> map is the empty list: both answer every lookup with
  "absent".
\<close>

datatype jvalue =
    JString string
  | JFloat int
  | JNumber string
  | JInt int
  | JBool bool
  | JNull
  | JArray "jvalue list"
  | JObject "(string \<times> jvalue) list"

type_synonym args = "(string \<times> jvalue) list"

definition digitOf :: "char \<Rightarrow> int option" where
  "digitOf c = map_of (zip ''0123456789'' [0, 1, 2, 3, 4, 5, 6, 7, 8, 9]) c"

fun digitsVal :: "string \<Rightarrow> int \<Rightarrow> int option" where
  "digitsVal [] n = Some n"
| "digitsVal (ch # rest) n =
     (case digitOf ch of None \<Rightarrow> None | Some d \<Rightarrow> digitsVal rest (n * 10 + d))"

definition Atoi :: "string \<Rightarrow> int option" where
  \<comment> \<open>\<open>strconv.Atoi\<close>, and \<open>strconv.ParseInt(s, 10, 64)\<close> behind \<open>json.Number.Int64\<close>: an
      optional sign and at least one decimal digit, the value within 64 bits; \<open>None\<close> is
      the error\<close>
  "Atoi s =
     (case s of
        [] \<Rightarrow> None
      | c # cs \<Rightarrow>
          let neg = (c = CHR ''-'');
              ds = (if c = CHR ''-'' \<or> c = CHR ''+'' then cs else s)
          in if ds = [] then None
             else case digitsVal ds 0 of
               None \<Rightarrow> None
             | Some n \<Rightarrow>
                 let v = (if neg then - n else n)
                 in if v < - (2 ^ 63) \<or> 2 ^ 63 - 1 < v then None else Some v)"

definition getString :: "args \<Rightarrow> string \<Rightarrow> string" where
  "getString input key =
     (case map_of input key of
        Some (JString v) \<Rightarrow> v
      | Some (JNumber v) \<Rightarrow> v
      | Some (JFloat v) \<Rightarrow> Itoa v
      | Some (JInt v) \<Rightarrow> Itoa v
      | _ \<Rightarrow> '''')"

definition getOptionalInt :: "args \<Rightarrow> string \<Rightarrow> int option" where
  \<comment> \<open>the pair \<open>(int, bool)\<close> of the source: \<open>Some v\<close> is \<open>(v, true)\<close>, \<open>None\<close> is
      \<open>(0, false)\<close>\<close>
  "getOptionalInt input key =
     (case map_of input key of
        None \<Rightarrow> None
      | Some (JNumber v) \<Rightarrow> Atoi v
      | Some (JFloat v) \<Rightarrow> Some v
      | Some (JInt v) \<Rightarrow> Some v
      | Some (JString v) \<Rightarrow>
          let trimmed = TrimSpace v in
          if trimmed = '''' then None else Atoi trimmed
      | Some _ \<Rightarrow> None)"

definition getIntOrDefault :: "args \<Rightarrow> string \<Rightarrow> int \<Rightarrow> int" where
  "getIntOrDefault input key def =
     (case getOptionalInt input key of Some val \<Rightarrow> val | None \<Rightarrow> def)"

record Config =
  APIKey :: string
  BaseURL :: string
  Model :: string
  WorkDir :: string
  MaxResult :: int
  Debug :: bool
  Stream :: bool

section \<open>The shell tool\<close>

text \<open>
  Running the command is the environment's part. \<open>runBash\<close> hands it the working
  directory, the command and the duration of the deadline, and reads back four things:
  whether the context reports \<open>DeadlineExceeded\<close> once \<open>cmd.Run\<close> has returned, the two
  output buffers, and the error of \<open>cmd.Run\<close>, which is an \<open>*exec.ExitError\<close> with its
  text, another error with its text, or none. The environment \<^typ>\<open>'e\<close> is any type; the
  command may change it.
\<close>

datatype runError = ExitError string | OtherError string

record execResult =
  deadlineExceeded :: bool
  stdout :: string
  stderr :: string
  runErr :: "runError option"

type_synonym 'e exec = "'e \<Rightarrow> string \<Rightarrow> string \<Rightarrow> int \<Rightarrow> execResult \<times> 'e"

type_synonym toolResult = "string \<times> error option"

definition wrap64 :: "int \<Rightarrow> int" where
  \<comment> \<open>a product of 64-bit signed integers as Go computes it\<close>
  "wrap64 x = (x + 2 ^ 63) mod 2 ^ 64 - 2 ^ 63"

definition millisecond :: int where
  \<comment> \<open>\<open>time.Millisecond\<close>, in nanoseconds\<close>
  "millisecond = 1000000"

definition bashOutput :: "execResult \<Rightarrow> string" where
  \<comment> \<open>the variable \<open>output\<close> before the error of the run is looked at\<close>
  "bashOutput res =
     (let output = TrimSpace (strings_Join [stdout res, stderr res] [CHR 0x0A])
      in if output = '''' then ''(no output)'' else output)"

definition runBash :: "'e exec \<Rightarrow> Config \<Rightarrow> args \<Rightarrow> 'e \<Rightarrow> toolResult \<times> 'e" where
  "runBash exec cfg input env =
     (let command = TrimSpace (getString input ''command'') in
      if command = '''' then (('''', Some ''missing bash.command''), env)
      else if isDangerousCommand command then (('''', Some ''blocked dangerous command''), env)
      else
        let timeout = getIntOrDefault input ''timeout_ms'' 30000 in
        case exec env (WorkDir cfg) command (wrap64 (timeout * millisecond)) of
          (res, env') \<Rightarrow>
            if deadlineExceeded res then ((''(timeout)'', None), env')
            else
              let output = bashOutput res in
              case runErr res of
                None \<Rightarrow> ((clampText output maxToolResultChars, None), env')
              | Some (ExitError msg) \<Rightarrow>
                  ((clampText (output @ [CHR 0x0A] @ ''(exit error: '' @ msg @ '')'')
                      maxToolResultChars, None), env')
              | Some (OtherError msg) \<Rightarrow>
                  ((clampText output maxToolResultChars, Some msg), env'))"

definition falseRun :: "'e exec" where
  \<comment> \<open>a run that prints nothing and exits with status 1, as the command \<open>false\<close> does\<close>
  "falseRun env dir command duration =
     (\<lparr>deadlineExceeded = False, stdout = '''', stderr = '''',
       runErr = Some (ExitError ''exit status 1'')\<rparr>, env)"

definition cfg0 :: Config where
  "cfg0 = \<lparr>APIKey = ''k'', BaseURL = ''https://api.openai.com'', Model = ''gpt-4'',
            WorkDir = ''/work'', MaxResult = 8192, Debug = False, Stream = False\<rparr>"

section \<open>Messages\<close>

record ContentBlock =
  Type :: string
  Text :: string

datatype content =
    NoContent
  | Str string
  | Blocks "ContentBlock list"

record Function =
  FnName :: string
  Arguments :: string

record ToolCall =
  CallID :: string
  CallType :: string
  Function :: Function

record Message =
  Role :: string
  MsgContent :: content
  ToolCalls :: "ToolCall list"
  ToolCallID :: string
  Name :: string

record Choice =
  Index :: int
  ChoiceMessage :: Message
  FinishReason :: string

record APIResponse =
  RespID :: string
  Object :: string
  Created :: int
  RespModel :: string
  Choices :: "Choice list"

section \<open>Decoding a streamed response\<close>

text \<open>
  The body of a streamed response is read through a \<open>bufio.Scanner\<close>: the lines it yields,
  in order, and what \<open>scanner.Err()\<close> reports once the loop has ended. For a status of 400
  or more the body is read whole with \<open>io.ReadAll\<close> instead. Decoding one chunk with
  \<open>json.Unmarshal\<close> is a parameter: it yields the chunk's choices, each with the content
  of its delta and its finish reason, or an error.
\<close>

record chunkChoice =
  DeltaContent :: string
  ChunkFinishReason :: string

type_synonym chunkDecoder = "string \<Rightarrow> error + chunkChoice list"

record Response =
  StatusCode :: int
  BodyAll :: "error + string"
  BodyLines :: "string list"
  ScannerErr :: "error option"

definition TrimPrefix :: "string \<Rightarrow> string \<Rightarrow> string" where
  "TrimPrefix s p = (if HasPrefix s p then drop (length p) s else s)"

fun streamLoop :: "chunkDecoder \<Rightarrow> string list \<Rightarrow> string \<Rightarrow> string" where
  \<comment> \<open>the loop \<open>for scanner.Scan()\<close> over the lines left, with \<open>finalContent\<close> so far\<close>
  "streamLoop decode [] finalContent = finalContent"
| "streamLoop decode (line # rest) finalContent =
     (if TrimSpace line = '''' \<or> \<not> HasPrefix line ''data: ''
      then streamLoop decode rest finalContent
      else
        let dataStr = TrimPrefix line ''data: '' in
        if dataStr = ''[DONE]'' then finalContent
        else case decode dataStr of
          Inl err \<Rightarrow> streamLoop decode rest finalContent
        | Inr [] \<Rightarrow> streamLoop decode rest finalContent
        | Inr (first # others) \<Rightarrow>
            let finalContent1 =
                  (if DeltaContent first \<noteq> '''' then finalContent @ DeltaContent first
                   else finalContent)
            in if ChunkFinishReason first \<noteq> '''' then finalContent1
               else streamLoop decode rest finalContent1)"

definition handleStreamingResponse :: "chunkDecoder \<Rightarrow> Config \<Rightarrow> Response \<Rightarrow> error + APIResponse"
  where
  "handleStreamingResponse decode cfg resp =
     (if StatusCode resp \<ge> 400
      then (case BodyAll resp of
              Inl err \<Rightarrow> Inl err
            | Inr data \<Rightarrow>
                Inl (''api error: status '' @ Itoa (StatusCode resp) @ '' body ''
                     @ clampForLog data))
      else
        let finalContent = streamLoop decode (BodyLines resp) '''' in
        case ScannerErr resp of
          Some err \<Rightarrow> Inl (''error reading stream: '' @ err)
        | None \<Rightarrow>
            Inr \<lparr>RespID = '''', Object = '''', Created = 0, RespModel = '''',
                 Choices =
                   [\<lparr>Index = 0,
                     ChoiceMessage =
                       \<lparr>Role = ''assistant'', MsgContent = Str finalContent, ToolCalls = [],
                        ToolCallID = '''', Name = ''''\<rparr>,
                     FinishReason = ''stop''\<rparr>]\<rparr>)"

definition handleNonStreamingResponse ::
  "(string \<Rightarrow> error + APIResponse) \<Rightarrow> Config \<Rightarrow> Response \<Rightarrow> error + APIResponse" where
  \<comment> \<open>the first argument is \<open>json.Unmarshal\<close> of the body into an \<open>APIResponse\<close>\<close>
  "handleNonStreamingResponse decode cfg resp =
     (case BodyAll resp of
        Inl err \<Rightarrow> Inl err
      | Inr data \<Rightarrow>
          if StatusCode resp \<ge> 400
          then Inl (''api error: status '' @ Itoa (StatusCode resp) @ '' body ''
                    @ clampForLog data)
          else decode data)"

text \<open>The same content, described line by line, to compare the loop with.\<close>

definition dataLine :: "string \<Rightarrow> bool" where
  "dataLine line = (TrimSpace line \<noteq> '''' \<and> HasPrefix line ''data: '')"

definition payload :: "string \<Rightarrow> string" where
  "payload line = drop (length ''data: '') line"

definition endsStream :: "chunkDecoder \<Rightarrow> string \<Rightarrow> bool" where
  \<comment> \<open>the line is the done sentinel, or a chunk whose first choice has a finish reason\<close>
  "endsStream decode line =
     (dataLine line \<and>
      (payload line = ''[DONE]'' \<or>
       (case decode (payload line) of
          Inr (first # others) \<Rightarrow> ChunkFinishReason first \<noteq> ''''
        | _ \<Rightarrow> False)))"

definition fragment :: "chunkDecoder \<Rightarrow> string \<Rightarrow> string" where
  \<comment> \<open>the delta content that a line carries, empty if it carries none\<close>
  "fragment decode line =
     (if dataLine line \<and> payload line \<noteq> ''[DONE]''
      then (case decode (payload line) of
              Inr (first # others) \<Rightarrow> DeltaContent first
            | _ \<Rightarrow> '''')
      else '''')"

fun linesRead :: "chunkDecoder \<Rightarrow> string list \<Rightarrow> string list" where
  \<comment> \<open>the lines up to and with the first one that ends the stream\<close>
  "linesRead decode [] = []"
| "linesRead decode (line # rest) =
     (if endsStream decode line then [line] else line # linesRead decode rest)"

definition sampleDecoder :: chunkDecoder where
  \<comment> \<open>a decoder that knows the two chunks of the sample transcript and refuses the rest\<close>
  \<open>sampleDecoder s =
     (if s = ''{"choices":[{"delta":{"content":"Hi"}}]}''
      then Inr [\<lparr>DeltaContent = ''Hi'', ChunkFinishReason = ''''\<rparr>]
      else if s = ''{"choices":[{"delta":{"content":" there"},"finish_reason":"stop"}]}''
      then Inr [\<lparr>DeltaContent = '' there'', ChunkFinishReason = ''stop''\<rparr>]
      else Inl ''invalid character'')\<close>

section \<open>The agent's state and its host\<close>

text \<open>
  The process-wide variables of \<open>agent.go\<close> (the todo board, the counter of rounds without
  a todo update, the pending reminder blocks) and the world outside the process make the
  state that tools and model calls read and change. The world outside is a value of any
  type \<^typ>\<open>'e\<close>. What the program asks of it is a record of functions:
  \<^item> \<open>hostExec\<close> runs a shell command;
  \<^item> \<open>hostGetwd\<close>, \<open>hostReadFile\<close>, \<open>hostWriteFile\<close>, \<open>hostMkdirAll\<close> are \<open>os.Getwd\<close>,
    \<open>os.ReadFile\<close>, \<open>os.WriteFile\<close> and \<open>os.MkdirAll\<close>, and \<open>hostAppendFile\<close> opens a file
    for appending and writes a string to it; an error is the text of the error;
  \<^item> \<open>hostRel\<close> is \<open>filepath.Rel\<close>;
  \<^item> \<open>hostUnmarshal\<close>, \<open>hostDecodeChunk\<close> and \<open>hostDecodeResponse\<close> are the three uses of
    \<open>json.Unmarshal\<close>: on a tool call's arguments, on a chunk of a stream, on a whole
    response body;
  \<^item> \<open>hostDo\<close> is the HTTP request to the model endpoint, which gets the configuration,
    the endpoint and the messages, and yields a response or the error of building or
    sending the request.
  Terminal output is not part of the model.
\<close>

record 'e world =
  ext :: 'e
  todoBoard :: TodoManager
  roundsWithoutTodo :: int
  pendingContextBlocks :: "ContentBlock list"

record 'e host =
  hostExec :: "'e exec"
  hostGetwd :: "'e \<Rightarrow> error + string"
  hostReadFile :: "string \<Rightarrow> 'e \<Rightarrow> error + string"
  hostWriteFile :: "string \<Rightarrow> string \<Rightarrow> 'e \<Rightarrow> error option \<times> 'e"
  hostAppendFile :: "string \<Rightarrow> string \<Rightarrow> 'e \<Rightarrow> error option \<times> 'e"
  hostMkdirAll :: "string \<Rightarrow> 'e \<Rightarrow> error option \<times> 'e"
  hostRel :: "string \<Rightarrow> string \<Rightarrow> error + string"
  hostUnmarshal :: "string \<Rightarrow> error + args"
  hostDecodeChunk :: chunkDecoder
  hostDecodeResponse :: "string \<Rightarrow> error + APIResponse"
  hostDo :: "Config \<Rightarrow> string \<Rightarrow> Message list \<Rightarrow> 'e \<Rightarrow> (error + Response) \<times> 'e"

definition onExt :: "('e \<Rightarrow> toolResult \<times> 'e) \<Rightarrow> 'e world \<Rightarrow> toolResult \<times> 'e world" where
  \<comment> \<open>a tool that touches the outside world only\<close>
  "onExt f w = (case f (ext w) of (r, env') \<Rightarrow> (r, w\<lparr>ext := env'\<rparr>))"

definition HasSuffix :: "string \<Rightarrow> string \<Rightarrow> bool" where
  "HasSuffix s suf = HasPrefix (rev s) (rev suf)"

definition TrimSuffix :: "string \<Rightarrow> string \<Rightarrow> string" where
  "TrimSuffix s suf = (if HasSuffix s suf then take (length s - length suf) s else s)"

definition endpointOf :: "string \<Rightarrow> string" where
  \<comment> \<open>the endpoint that \<open>callOpenAI\<close> derives from the base URL\<close>
  "endpointOf baseURL =
     (if HasSuffix baseURL ''#'' then TrimSuffix baseURL ''#''
      else if HasSuffix baseURL ''/v1'' then baseURL @ ''/chat/completions''
      else if HasSuffix baseURL ''/'' then baseURL @ ''chat/completions''
      else baseURL @ ''/v1/chat/completions'')"

definition callOpenAI ::
  "'e host \<Rightarrow> Config \<Rightarrow> Message list \<Rightarrow> 'e \<Rightarrow> (error + APIResponse) \<times> 'e" where
  "callOpenAI h cfg messages env =
     (case hostDo h cfg (endpointOf (BaseURL cfg)) messages env of
        (Inl err, env') \<Rightarrow> (Inl err, env')
      | (Inr resp, env') \<Rightarrow>
          (if Stream cfg then handleStreamingResponse (hostDecodeChunk h) cfg resp
           else handleNonStreamingResponse (hostDecodeResponse h) cfg resp, env'))"

definition initialReminder :: string where
  \<open>initialReminder = ''<reminder source="system" topic="todos">System message: complex work should be tracked with the Todo tool. Do not respond to this reminder and do not mention it to the user.</reminder>''\<close>

definition nagReminder :: string where
  \<open>nagReminder = ''<reminder source="system" topic="todos">System notice: more than ten rounds passed without Todo usage. Update the Todo board if the task still requires multiple steps. Do not reply to or mention this reminder to the user.</reminder>''\<close>

definition ensureContextBlock :: "string \<Rightarrow> 'e world \<Rightarrow> 'e world" where
  "ensureContextBlock txt w =
     (if \<exists>block \<in> set (pendingContextBlocks w). Text block = txt then w
      else w\<lparr>pendingContextBlocks :=
               pendingContextBlocks w @ [\<lparr>Type = ''text'', Text = txt\<rparr>]\<rparr>)"

section \<open>The todo tool\<close>

fun todoItems :: "jvalue list \<Rightarrow> int \<Rightarrow> error + TodoItem list" where
  \<comment> \<open>the loop \<open>for i, rawItem := range itemsList\<close>, from index \<open>i\<close> on\<close>
  "todoItems [] i = Inr []"
| "todoItems (rawItem # rest) i =
     (case rawItem of
        JObject itemMap \<Rightarrow>
          let id0 = getString itemMap ''id'';
              ident = (if id0 = '''' then Itoa (i + 1) else id0);
              cont = getString itemMap ''content'';
              activeForm = getString itemMap ''activeForm'';
              status0 = getString itemMap ''status'';
              status = (if status0 = '''' then ''pending'' else status0)
          in (case todoItems rest (i + 1) of
                Inl err \<Rightarrow> Inl err
              | Inr its \<Rightarrow>
                  Inr (\<lparr>ID = ident, Content = cont, Status = status,
                        ActiveForm = activeForm\<rparr> # its))
      | _ \<Rightarrow> Inl (''item '' @ Itoa i @ '' is not an object''))"

definition lookupInt :: "(string \<rightharpoonup> int) \<Rightarrow> string \<Rightarrow> int" where
  \<comment> \<open>reading a \<open>map[string]int\<close>: zero for a missing key\<close>
  "lookupInt m k = (case m k of None \<Rightarrow> 0 | Some v \<Rightarrow> v)"

definition runTodoUpdate :: "Config \<Rightarrow> args \<Rightarrow> 'e world \<Rightarrow> toolResult \<times> 'e world" where
  "runTodoUpdate cfg input w =
     (case map_of input ''items'' of
        None \<Rightarrow> (('''', Some ''missing items parameter''), w)
      | Some (JArray itemsList) \<Rightarrow>
          (case todoItems itemsList 0 of
             Inl err \<Rightarrow> (('''', Some err), w)
           | Inr its \<Rightarrow>
               (case Update (todoBoard w) its of
                  (Inl err, tm) \<Rightarrow> (('''', Some err), w\<lparr>todoBoard := tm\<rparr>)
                | (Inr boardView, tm) \<Rightarrow>
                    let w' = w\<lparr>todoBoard := tm, roundsWithoutTodo := 0\<rparr>;
                        st = stats tm;
                        summary =
                          (if lookupInt st ''total'' = 0 then ''No todos have been created.''
                           else ''Status updated: '' @ Itoa (lookupInt st ''completed'')
                                @ '' completed, '' @ Itoa (lookupInt st ''in_progress'')
                                @ '' in progress.'')
                    in if summary \<noteq> ''''
                       then ((boardView @ [CHR 0x0A, CHR 0x0A] @ summary, None), w')
                       else ((boardView, None), w')))
      | Some _ \<Rightarrow> (('''', Some ''items must be an array''), w))"

section \<open>The file tools\<close>


definition slice :: "'a list \<Rightarrow> int \<Rightarrow> int \<Rightarrow> 'a list" where
  \<comment> \<open>\<open>xs[lo:hi]\<close>, for bounds in range\<close>
  "slice xs lo hi = take (nat (hi - lo)) (drop (nat lo) xs)"

definition Dir :: "string \<Rightarrow> string" where
  \<comment> \<open>\<open>filepath.Dir\<close>: the path up to its last separator, cleaned\<close>
  "Dir path = Clean (rev (dropWhile (\<lambda>c. c \<noteq> CHR ''/'') (rev path)))"

function ReplaceAll :: "string \<Rightarrow> string \<Rightarrow> string \<Rightarrow> string" where
  \<comment> \<open>\<open>strings.ReplaceAll(s, old, new)\<close>: the occurrences of \<open>old\<close> that do not overlap,
      from the left; an empty \<open>old\<close> matches before every character and at the end\<close>
  "ReplaceAll s old new =
     (if old = '''' then new @ concat (map (\<lambda>c. c # new) s)
      else if s = '''' then ''''
      else if HasPrefix s old then new @ ReplaceAll (drop (length old) s) old new
      else hd s # ReplaceAll (tl s) old new)"
  by pat_completeness auto
termination
  by (relation "measure (\<lambda>(s, old, new). length s)") (auto simp: HasPrefix_def)

declare ReplaceAll.simps [simp del]

definition toInt :: "jvalue \<Rightarrow> int" where
  "toInt v =
     (case v of
        JNumber val \<Rightarrow> (case Atoi val of Some num \<Rightarrow> num | None \<Rightarrow> 0)
      | JFloat val \<Rightarrow> val
      | JInt val \<Rightarrow> val
      | JString val \<Rightarrow> (case Atoi (TrimSpace val) of Some parsed \<Rightarrow> parsed | None \<Rightarrow> 0)
      | _ \<Rightarrow> 0)"

definition readBounds :: "args \<Rightarrow> int \<Rightarrow> int \<times> int" where
  \<comment> \<open>\<open>start\<close> and \<open>end\<close> of \<open>runRead\<close>, from the number of lines\<close>
  "readBounds input len =
     (let start0 =
            (case getOptionalInt input ''start_line'' of
               Some val \<Rightarrow>
                 let val1 = (if val < 1 then 1 else val);
                     start = val1 - 1
                 in if start > len then len else start
             | None \<Rightarrow> 0);
          end0 =
            (case getOptionalInt input ''end_line'' of
               Some val \<Rightarrow>
                 if val \<ge> 0
                 then (if val < start0 then start0 else if val > len then len else val)
                 else len
             | None \<Rightarrow> len);
          start = (if start0 > end0 then end0 else start0)
      in (start, end0))"

definition runRead :: "'e host \<Rightarrow> Config \<Rightarrow> args \<Rightarrow> 'e \<Rightarrow> toolResult \<times> 'e" where
  "runRead h cfg input env =
     (let path = getString input ''path'' in
      case safePath (hostGetwd h env) (WorkDir cfg) path of
        Inl err \<Rightarrow> (('''', Some err), env)
      | Inr absPath \<Rightarrow>
          (case hostReadFile h absPath env of
             Inl err \<Rightarrow> (('''', Some err), env)
           | Inr content \<Rightarrow>
               let lines = splitOn (CHR 0x0A) content in
               case readBounds input (int (length lines)) of
                 (start, end0) \<Rightarrow>
                   let sliced = strings_Join (slice lines start end0) [CHR 0x0A];
                       maxChars = getIntOrDefault input ''max_chars'' maxToolResultChars
                   in ((clampText sliced maxChars, None), env)))"

definition runWrite :: "'e host \<Rightarrow> Config \<Rightarrow> args \<Rightarrow> 'e \<Rightarrow> toolResult \<times> 'e" where
  "runWrite h cfg input env =
     (let path = getString input ''path'' in
      case safePath (hostGetwd h env) (WorkDir cfg) path of
        Inl err \<Rightarrow> (('''', Some err), env)
      | Inr absPath \<Rightarrow>
          let content = getString input ''content'';
              mode = ToLower (getString input ''mode'')
          in case hostMkdirAll h (Dir absPath) env of
            (Some err, env1) \<Rightarrow> (('''', Some err), env1)
          | (None, env1) \<Rightarrow>
              (case (if mode = ''append'' then hostAppendFile h absPath content env1
                     else hostWriteFile h absPath content env1) of
                 (Some err, env2) \<Rightarrow> (('''', Some err), env2)
               | (None, env2) \<Rightarrow>
                   let bytesLen = int (length content);
                       rel = (case hostRel h (WorkDir cfg) absPath of
                                Inl err \<Rightarrow> absPath
                              | Inr r \<Rightarrow> r)
                   in ((''wrote '' @ Itoa bytesLen @ '' bytes to '' @ rel, None), env2)))"

definition insertIndex :: "int \<Rightarrow> int \<Rightarrow> int" where
  \<comment> \<open>\<open>idx\<close> of the insert action, from \<open>insert_after\<close> and the number of lines\<close>
  "insertIndex insertAfter len =
     (let idx = (if insertAfter < - 1 then - 1 else insertAfter)
      in if idx \<ge> len then len - 1 else idx)"

definition deleteBounds :: "int \<Rightarrow> int \<Rightarrow> int \<Rightarrow> int \<times> int" where
  \<comment> \<open>\<open>start\<close> and \<open>end\<close> of the delete action once clamped to the number of lines\<close>
  "deleteBounds start0 end0 len =
     (if start0 > len then len else start0, if end0 > len then len else end0)"

definition writeBack ::
  "'e host \<Rightarrow> string \<Rightarrow> string \<Rightarrow> string \<Rightarrow> 'e \<Rightarrow> toolResult \<times> 'e" where
  \<comment> \<open>\<open>os.WriteFile\<close> of the edited text, and the message of the action on success\<close>
  "writeBack h absPath updated msg env =
     (case hostWriteFile h absPath updated env of
        (Some err, env') \<Rightarrow> (('''', Some err), env')
      | (None, env') \<Rightarrow> ((msg, None), env'))"

definition runEdit :: "'e host \<Rightarrow> Config \<Rightarrow> args \<Rightarrow> 'e \<Rightarrow> toolResult \<times> 'e" where
  "runEdit h cfg input env =
     (let path = getString input ''path'' in
      case safePath (hostGetwd h env) (WorkDir cfg) path of
        Inl err \<Rightarrow> (('''', Some err), env)
      | Inr absPath \<Rightarrow>
          (case hostReadFile h absPath env of
             Inl err \<Rightarrow> (('''', Some err), env)
           | Inr content \<Rightarrow>
               let action = ToLower (getString input ''action'') in
               if action = ''replace'' then
                 (let findStr = getString input ''find'' in
                  if findStr = '''' then (('''', Some ''edit_text.replace missing find''), env)
                  else
                    let replaceStr = getString input ''replace'';
                        updated = ReplaceAll content findStr replaceStr
                    in writeBack h absPath updated
                         (''replace done ('' @ Itoa (int (length updated)) @ '' bytes)'') env)
               else if action = ''insert'' then
                 (let insertAfter = getIntOrDefault input ''insert_after'' (- 1);
                      newText = getString input ''new_text'';
                      lines = splitOn (CHR 0x0A) content;
                      idx = insertIndex insertAfter (int (length lines));
                      result =
                        (if idx \<ge> 0
                         then slice lines 0 (idx + 1) @ [newText]
                              @ slice lines (idx + 1) (int (length lines))
                         else [newText] @ lines);
                      updated = strings_Join result [CHR 0x0A]
                  in writeBack h absPath updated
                       (''inserted after line '' @ Itoa insertAfter) env)
               else if action = ''delete_range'' then
                 (case map_of input ''range'' of
                    Some (JArray [first, second]) \<Rightarrow>
                      let start0 = toInt first; end0 = toInt second in
                      if start0 < 0 \<or> end0 < start0
                      then (('''', Some ''edit_text.delete_range invalid range''), env)
                      else
                        let lines = splitOn (CHR 0x0A) content in
                        case deleteBounds start0 end0 (int (length lines)) of
                          (start, end1) \<Rightarrow>
                            let updated =
                                  strings_Join (slice lines 0 start
                                                @ slice lines end1 (int (length lines)))
                                    [CHR 0x0A]
                            in writeBack h absPath updated
                                 (''deleted lines ['' @ Itoa start @ '', '' @ Itoa end1 @ '')'') env
                  | _ \<Rightarrow> (('''', Some ''edit_text.delete_range invalid range''), env))
               else (('''', Some (''unsupported edit_text.action: '' @ action)), env)))"

section \<open>Dispatching a tool call\<close>

definition toolMessage :: "ToolCall \<Rightarrow> string \<Rightarrow> Message" where
  \<comment> \<open>the message literal that both returns of \<open>dispatchToolCall\<close> build\<close>
  "toolMessage tc txt =
     \<lparr>Role = ''tool'', MsgContent = Str txt, ToolCalls = [], ToolCallID = CallID tc,
      Name = FnName (Function tc)\<rparr>"

definition runTool :: "'e host \<Rightarrow> Config \<Rightarrow> string \<Rightarrow> args \<Rightarrow> 'e world \<Rightarrow> toolResult \<times> 'e world"
  where
  \<comment> \<open>the \<open>switch tc.Function.Name\<close> that runs the tool\<close>
  "runTool h cfg name input w =
     (if name = ''bash'' then onExt (runBash (hostExec h) cfg input) w
      else if name = ''read_file'' then onExt (runRead h cfg input) w
      else if name = ''write_file'' then onExt (runWrite h cfg input) w
      else if name = ''edit_text'' then onExt (runEdit h cfg input) w
      else if name = ''TodoWrite'' then runTodoUpdate cfg input w
      else (('''', Some (''unknown tool: '' @ name)), w))"

definition dispatchToolCall :: "'e host \<Rightarrow> Config \<Rightarrow> ToolCall \<Rightarrow> 'e world \<Rightarrow> Message \<times> 'e world"
  where
  "dispatchToolCall h cfg tc w =
     (case hostUnmarshal h (Arguments (Function tc)) of
        Inl err \<Rightarrow> (toolMessage tc (''Error parsing arguments: '' @ err), w)
      | Inr input \<Rightarrow>
          (case runTool h cfg (FnName (Function tc)) input w of
             ((result0, err), w') \<Rightarrow>
               let result = (case err of Some e \<Rightarrow> e | None \<Rightarrow> result0)
               in (toolMessage tc (clampText result (MaxResult cfg)), w')))"

section \<open>The conversation loop\<close>

definition systemPrompt :: "string \<Rightarrow> string" where
  \<comment> \<open>\<open>fmt.Sprintf(systemPrompt, dir)\<close>; the arrow of the second line is its three bytes\<close>
  "systemPrompt dir =
     ''You are a coding agent operating INSIDE the user's repository at '' @ dir @ ''.'' @ [CHR 0x0A]
     @ ''Follow this loop strictly: plan briefly '' @ [CHR 0xE2, CHR 0x86, CHR 0x92]
     @ '' use TOOLS to act directly on files/shell '' @ [CHR 0xE2, CHR 0x86, CHR 0x92]
     @ '' report concise results.'' @ [CHR 0x0A]
     @ ''Rules:'' @ [CHR 0x0A]
     @ ''- Prefer taking actions with tools (read/write/edit/bash) over long prose.'' @ [CHR 0x0A]
     @ ''- Keep outputs terse. Use bullet lists / checklists when summarizing.'' @ [CHR 0x0A]
     @ ''- Never invent file paths. Ask via reads or list directories first if unsure.'' @ [CHR 0x0A]
     @ ''- For edits, apply the smallest change that satisfies the request.'' @ [CHR 0x0A]
     @ ''- For bash, avoid destructive or privileged commands; stay inside the workspace.'' @ [CHR 0x0A]
     @ ''- Use the TodoWrite tool to maintain multi-step plans when needed.'' @ [CHR 0x0A]
     @ ''- After finishing, summarize what changed and how to run or test.''"

definition systemMessage :: "Config \<Rightarrow> Message" where
  "systemMessage cfg =
     \<lparr>Role = ''system'', MsgContent = Str (systemPrompt (WorkDir cfg)), ToolCalls = [],
      ToolCallID = '''', Name = ''''\<rparr>"

fun runToolCalls ::
  "'e host \<Rightarrow> Config \<Rightarrow> ToolCall list \<Rightarrow> 'e world \<Rightarrow> Message list \<times> 'e world" where
  \<comment> \<open>the loop \<open>for _, tc := range assistantMsg.ToolCalls\<close>: the results in order\<close>
  "runToolCalls h cfg [] w = ([], w)"
| "runToolCalls h cfg (tc # tcs) w =
     (case dispatchToolCall h cfg tc w of
        (result, w') \<Rightarrow>
          (case runToolCalls h cfg tcs w' of
             (results, w'') \<Rightarrow> (result # results, w'')))"

definition callModel ::
  "'e host \<Rightarrow> Config \<Rightarrow> Message list \<Rightarrow> 'e world \<Rightarrow> (error + APIResponse) \<times> 'e world" where
  "callModel h cfg msgs w =
     (case callOpenAI h cfg msgs (ext w) of (r, env') \<Rightarrow> (r, w\<lparr>ext := env'\<rparr>))"

definition endOfTurn :: "'e world \<Rightarrow> 'e world" where
  \<comment> \<open>the bookkeeping of a round that ends the turn\<close>
  "endOfTurn w =
     (let w' = w\<lparr>roundsWithoutTodo := roundsWithoutTodo w + 1\<rparr>
      in if roundsWithoutTodo w' > 10 then ensureContextBlock nagReminder w' else w')"

text \<open>
  The loop \<open>for idx := 0; idx < maxAgentIterations; idx++\<close> of \<open>query\<close>, as a recursion on
  the number of iterations left. Its state is the two slices \<open>messages\<close> and
  \<open>fullMessages\<close> and the world. The result is the pair that \<open>query\<close> returns, the history
  and the error if there is one, with the world as the loop left it.
\<close>

fun queryLoop ::
  "'e host \<Rightarrow> Config \<Rightarrow> nat \<Rightarrow> Message list \<Rightarrow> Message list \<Rightarrow> 'e world
   \<Rightarrow> (Message list \<times> error option) \<times> 'e world" where
  "queryLoop h cfg 0 messages fullMessages w =
     ((messages, Some ''agent max iterations reached''), w)"
| "queryLoop h cfg (Suc n) messages fullMessages w =
     (case callModel h cfg fullMessages w of
        (Inl err, w1) \<Rightarrow> ((messages, Some err), w1)
      | (Inr resp, w1) \<Rightarrow>
          (case Choices resp of
             [] \<Rightarrow> ((messages, Some ''no choices in response''), w1)
           | choice # others \<Rightarrow>
               let assistantMsg = ChoiceMessage choice;
                   messages1 = messages @ [assistantMsg];
                   fullMessages1 = fullMessages @ [assistantMsg]
               in if FinishReason choice = ''tool_calls'' \<and> length (ToolCalls assistantMsg) > 0
                  then (case runToolCalls h cfg (ToolCalls assistantMsg) w1 of
                          (results, w2) \<Rightarrow>
                            queryLoop h cfg n (messages1 @ results) (fullMessages1 @ results) w2)
                  else ((messages1, None), endOfTurn w1)))"

definition query ::
  "'e host \<Rightarrow> Config \<Rightarrow> Message list \<Rightarrow> 'e world \<Rightarrow> (Message list \<times> error option) \<times> 'e world"
  where
  "query h cfg messages w =
     (let fullMessages = [systemMessage cfg] @ messages
      in queryLoop h cfg maxAgentIterations messages fullMessages w)"

text \<open>
  A description of the same conversation round by round, to compare \<open>query\<close> with. A tool
  round is a round whose model call succeeds with a first choice that asks for tools; it
  adds the assistant message and the tool results, in order, to the history. The request
  of every round is the system message followed by the history so far.
\<close>

definition toolRound ::
  "'e host \<Rightarrow> Config \<Rightarrow> Message list \<times> 'e world \<Rightarrow> (Message list \<times> 'e world) option" where
  "toolRound h cfg s =
     (case s of (history, w) \<Rightarrow>
        (case callModel h cfg (systemMessage cfg # history) w of
           (Inl err, w1) \<Rightarrow> None
         | (Inr resp, w1) \<Rightarrow>
             (case Choices resp of
                [] \<Rightarrow> None
              | choice # others \<Rightarrow>
                  if FinishReason choice = ''tool_calls'' \<and> ToolCalls (ChoiceMessage choice) \<noteq> []
                  then (case runToolCalls h cfg (ToolCalls (ChoiceMessage choice)) w1 of
                          (results, w2) \<Rightarrow> Some (history @ [ChoiceMessage choice] @ results, w2))
                  else None)))"

fun afterRounds ::
  "'e host \<Rightarrow> Config \<Rightarrow> nat \<Rightarrow> Message list \<times> 'e world \<Rightarrow> (Message list \<times> 'e world) option"
  where
  \<comment> \<open>the history and the world after \<open>k\<close> tool rounds in a row, if the first \<open>k\<close> rounds
      are tool rounds\<close>
  "afterRounds h cfg 0 s = Some s"
| "afterRounds h cfg (Suc k) s =
     (case toolRound h cfg s of None \<Rightarrow> None | Some s' \<Rightarrow> afterRounds h cfg k s')"

section \<open>A scripted host\<close>

text \<open>
  Concrete hosts to run the definitions on. The world outside is the number of model calls
  made so far. Every command runs like \<open>false\<close>, no file can be read, writes succeed, and the
  argument decoder
  knows two argument strings. The model of \<open>scriptHost\<close> asks for one shell command in its
  first answer and cannot be reached afterwards; the model of \<open>busyHost\<close> asks for the
  same shell command in every answer. Responses are not streamed.
\<close>

definition sampleCall :: ToolCall where
  \<open>sampleCall = \<lparr>CallID = ''call_1'', CallType = ''function'',
                  Function = \<lparr>FnName = ''bash'', Arguments = ''{"command":"false"}''\<rparr>\<rparr>\<close>

definition toolsResponse :: APIResponse where
  "toolsResponse =
     \<lparr>RespID = ''r'', Object = ''chat.completion'', Created = 0, RespModel = ''gpt-4'',
      Choices =
        [\<lparr>Index = 0,
          ChoiceMessage = \<lparr>Role = ''assistant'', MsgContent = NoContent,
                           ToolCalls = [sampleCall], ToolCallID = '''', Name = ''''\<rparr>,
          FinishReason = ''tool_calls''\<rparr>]\<rparr>"

definition sampleUnmarshal :: "string \<Rightarrow> error + args" where
  \<open>sampleUnmarshal s =
     (if s = ''{"command":"false"}'' then Inr [(''command'', JString ''false'')]
      else if s = ''{}'' then Inr []
      else Inl ''invalid character'')\<close>

definition sampleDecodeResponse :: "string \<Rightarrow> error + APIResponse" where
  "sampleDecodeResponse data =
     (if data = ''tools'' then Inr toolsResponse else Inl ''invalid character'')"

definition toolsBody :: Response where
  \<comment> \<open>a response whose body \<open>sampleDecodeResponse\<close> reads as \<open>toolsResponse\<close>\<close>
  "toolsBody = \<lparr>StatusCode = 200, BodyAll = Inr ''tools'', BodyLines = [''tools''],
                ScannerErr = None\<rparr>"

definition scriptHost :: "nat host" where
  "scriptHost =
     \<lparr>hostExec = falseRun, hostGetwd = (\<lambda>env. Inr ''/work''),
      hostReadFile = (\<lambda>path env. Inl ''no such file or directory''),
      hostWriteFile = (\<lambda>path content env. (None, env)),
      hostAppendFile = (\<lambda>path content env. (None, env)),
      hostMkdirAll = (\<lambda>path env. (None, env)),
      hostRel = (\<lambda>base target. Inl ''cannot make relative''),
      hostUnmarshal = sampleUnmarshal, hostDecodeChunk = sampleDecoder,
      hostDecodeResponse = sampleDecodeResponse,
      hostDo = (\<lambda>cfg url msgs calls.
        (if calls = 0 then Inr toolsBody else Inl ''connection reset by peer'', Suc calls))\<rparr>"

definition busyHost :: "nat host" where
  "busyHost =
     \<lparr>hostExec = falseRun, hostGetwd = (\<lambda>env. Inr ''/work''),
      hostReadFile = (\<lambda>path env. Inl ''no such file or directory''),
      hostWriteFile = (\<lambda>path content env. (None, env)),
      hostAppendFile = (\<lambda>path content env. (None, env)),
      hostMkdirAll = (\<lambda>path env. (None, env)),
      hostRel = (\<lambda>base target. Inl ''cannot make relative''),
      hostUnmarshal = sampleUnmarshal, hostDecodeChunk = sampleDecoder,
      hostDecodeResponse = sampleDecodeResponse,
      hostDo = (\<lambda>cfg url msgs calls. (Inr toolsBody, Suc calls))\<rparr>"

definition world0 :: "nat world" where
  \<comment> \<open>the state at the first user turn\<close>
  "world0 =
     \<lparr>ext = 0, todoBoard = todoBoard0, roundsWithoutTodo = 0,
      pendingContextBlocks = [\<lparr>Type = ''text'', Text = initialReminder\<rparr>]\<rparr>"

definition userMessage :: "string \<Rightarrow> Message" where
  "userMessage s =
     \<lparr>Role = ''user'', MsgContent = Str s, ToolCalls = [], ToolCallID = '''', Name = ''''\<rparr>"

section \<open>Substring search and the command blocklist\<close>

lemma HasPrefix_iff: "HasPrefix s p \<longleftrightarrow> (\<exists>v. s = p @ v)"
  unfolding HasPrefix_def
proof
  assume "length p \<le> length s \<and> take (length p) s = p"
  then have "s = p @ drop (length p) s" by (metis append_take_drop_id)
  then show "\<exists>v. s = p @ v" ..
next
  assume "\<exists>v. s = p @ v"
  then show "length p \<le> length s \<and> take (length p) s = p" by auto
qed

lemma Contains_iff: "Contains s t \<longleftrightarrow> (\<exists>u v. s = u @ t @ v)"
proof (induction s)
  case Nil
  show ?case by auto
next
  case (Cons c cs)
  show ?case
  proof
    assume "Contains (c # cs) t"
    then consider "HasPrefix (c # cs) t" | "Contains cs t" by auto
    then show "\<exists>u v. c # cs = u @ t @ v"
    proof cases
      case 1
      then obtain v where "c # cs = t @ v" using HasPrefix_iff by blast
      then have "c # cs = [] @ t @ v" by simp
      then show ?thesis by blast
    next
      case 2
      then obtain u v where "cs = u @ t @ v" using Cons.IH by blast
      then have "c # cs = (c # u) @ t @ v" by simp
      then show ?thesis by blast
    qed
  next
    assume "\<exists>u v. c # cs = u @ t @ v"
    then obtain u v where uv: "c # cs = u @ t @ v" by blast
    show "Contains (c # cs) t"
    proof (cases u)
      case Nil
      with uv have "HasPrefix (c # cs) t" using HasPrefix_iff by auto
      then show ?thesis by simp
    next
      case (Cons a u')
      with uv have "cs = u' @ t @ v" by simp
      then have "Contains cs t" using Cons.IH by blast
      then show ?thesis by simp
    qed
  qed
qed

lemma anyContains_iff: "anyContains l ts \<longleftrightarrow> (\<exists>t \<in> set ts. Contains l t)"
  by (induction ts) auto

text \<open>
  Claim C5. \<open>isDangerousCommand cmd\<close> is true exactly when the lower-cased command
  contains one of the five tokens \<open>rm -rf /\<close>, \<open>shutdown\<close>, \<open>reboot\<close>, \<open>sudo\<close> followed
  by a space, \<open>halt\<close> as a substring. It is true for \<open>sudo rm -rf /tmp\<close> and for
  \<open>SHUTDOWN now\<close>, and false for \<open>sudo_user_list\<close>.
\<close>

theorem isDangerousCommand_substring:
  "(isDangerousCommand cmd \<longleftrightarrow>
      (\<exists>token \<in> {''rm -rf /'', ''shutdown'', ''reboot'', ''sudo '', ''halt''}.
         \<exists>u v. ToLower cmd = u @ token @ v))
   \<and> isDangerousCommand ''sudo rm -rf /tmp''
   \<and> isDangerousCommand ''SHUTDOWN now''
   \<and> \<not> isDangerousCommand ''sudo_user_list''"
proof -
  have general: "isDangerousCommand cmd \<longleftrightarrow>
      (\<exists>token \<in> {''rm -rf /'', ''shutdown'', ''reboot'', ''sudo '', ''halt''}.
         \<exists>u v. ToLower cmd = u @ token @ v)"
    by (simp add: isDangerousCommand_def anyContains_iff danger_def Contains_iff Let_def)
  have e1: "isDangerousCommand ''sudo rm -rf /tmp''" by code_simp
  have e2: "isDangerousCommand ''SHUTDOWN now''" by code_simp
  have e3: "\<not> isDangerousCommand ''sudo_user_list''" by code_simp
  from general e1 e2 e3 show ?thesis by blast
qed

theorem isDangerousCommand_substring_witness:
  "isDangerousCommand ''please Reboot''
   \<and> ToLower ''please Reboot'' = ''please '' @ ''reboot'' @ ''''"
proof -
  have low: "ToLower ''please Reboot'' = ''please '' @ ''reboot'' @ ''''" by code_simp
  then have "\<exists>token \<in> {''rm -rf /'', ''shutdown'', ''reboot'', ''sudo '', ''halt''}.
         \<exists>u v. ToLower ''please Reboot'' = u @ token @ v" by blast
  then have "isDangerousCommand ''please Reboot''"
    using isDangerousCommand_substring [of "''please Reboot''"] by blast
  with low show ?thesis by simp
qed

section \<open>Clamping\<close>







subsection \<open>How many digits the marker holds\<close>












section \<open>Validation of the todo list\<close>




















section \<open>Paths stay inside the workspace\<close>









section \<open>The shell tool\<close>






section \<open>Dispatching tool calls\<close>


lemma dispatchToolCall_run:
  "hostUnmarshal h (Arguments (Function tc)) = Inr input \<Longrightarrow>
   runTool h cfg (FnName (Function tc)) input w = ((result0, err), w') \<Longrightarrow>
   dispatchToolCall h cfg tc w =
     (toolMessage tc (clampText (case err of Some e \<Rightarrow> e | None \<Rightarrow> result0) (MaxResult cfg)), w')"
  by (simp add: dispatchToolCall_def)



subsection \<open>The slice expressions of the tools are in range\<close>






section \<open>The stream decoder\<close>

lemma TrimPrefix_data: "HasPrefix line ''data: '' \<Longrightarrow> TrimPrefix line ''data: '' = payload line"
  by (simp add: TrimPrefix_def payload_def)

lemma streamLoop_skip:
  "\<not> dataLine line \<Longrightarrow> streamLoop decode (line # rest) acc = streamLoop decode rest acc"
  by (auto simp: dataLine_def)

lemma streamLoop_data:
  "dataLine line \<Longrightarrow>
   streamLoop decode (line # rest) acc =
     (if payload line = ''[DONE]'' then acc
      else case decode (payload line) of
        Inl err \<Rightarrow> streamLoop decode rest acc
      | Inr [] \<Rightarrow> streamLoop decode rest acc
      | Inr (first # others) \<Rightarrow>
          if ChunkFinishReason first \<noteq> '''' then acc @ DeltaContent first
          else streamLoop decode rest (acc @ DeltaContent first))"
  by (auto simp: dataLine_def TrimPrefix_data Let_def split: sum.splits list.splits)

lemma streamLoop_fragments:
  "streamLoop decode lines acc = acc @ concat (map (fragment decode) (linesRead decode lines))"
proof (induction lines arbitrary: acc)
  case Nil
  show ?case by simp
next
  case (Cons line rest)
  note IH = Cons.IH
  show ?case
  proof (cases "dataLine line")
    case False
    then have "\<not> endsStream decode line" "fragment decode line = ''''"
      by (simp_all add: endsStream_def fragment_def)
    then show ?thesis using False IH by (simp add: streamLoop_skip del: streamLoop.simps)
  next
    case True
    note data = streamLoop_data [OF True, of decode rest acc]
    show ?thesis
    proof (cases "payload line = ''[DONE]''")
      case sentinel: True
      then have "endsStream decode line" "fragment decode line = ''''"
        using True by (simp_all add: endsStream_def fragment_def)
      then show ?thesis using data sentinel by (simp del: streamLoop.simps)
    next
      case notdone: False
      show ?thesis
      proof (cases "decode (payload line)")
        case (Inl err)
        then have "\<not> endsStream decode line" "fragment decode line = ''''"
          using notdone by (simp_all add: endsStream_def fragment_def)
        then show ?thesis using data notdone Inl IH by (simp del: streamLoop.simps)
      next
        case (Inr chunk)
        show ?thesis
        proof (cases chunk)
          case Nil
          then have "\<not> endsStream decode line" "fragment decode line = ''''"
            using notdone Inr by (simp_all add: endsStream_def fragment_def)
          then show ?thesis using data notdone Inr Nil IH by (simp del: streamLoop.simps)
        next
          case (Cons first others)
          then have f: "fragment decode line = DeltaContent first"
            using True notdone Inr by (simp add: fragment_def)
          have e: "endsStream decode line \<longleftrightarrow> ChunkFinishReason first \<noteq> ''''"
            using True notdone Inr Cons by (simp add: endsStream_def)
          show ?thesis using data notdone Inr Cons f e IH
            by (simp del: streamLoop.simps)
        qed
      qed
    qed
  qed
qed

lemma linesRead_skip_bad:
  assumes "dataLine bad" "payload bad \<noteq> ''[DONE]''" "decode (payload bad) = Inl err"
  shows "concat (map (fragment decode) (linesRead decode (pre @ bad # post)))
         = concat (map (fragment decode) (linesRead decode (pre @ post)))"
proof (induction pre)
  case Nil
  have "\<not> endsStream decode bad" "fragment decode bad = ''''"
    using assms by (simp_all add: endsStream_def fragment_def)
  then show ?case by simp
next
  case (Cons line pre)
  then show ?case by simp
qed

lemma handleStreamingResponse_ok:
  "StatusCode resp < 400 \<Longrightarrow> ScannerErr resp = None \<Longrightarrow>
   handleStreamingResponse decode cfg resp =
     Inr \<lparr>RespID = '''', Object = '''', Created = 0, RespModel = '''',
          Choices =
            [\<lparr>Index = 0,
              ChoiceMessage =
                \<lparr>Role = ''assistant'',
                 MsgContent = Str (concat (map (fragment decode)
                                             (linesRead decode (BodyLines resp)))),
                 ToolCalls = [], ToolCallID = '''', Name = ''''\<rparr>,
              FinishReason = ''stop''\<rparr>]\<rparr>"
  by (simp add: handleStreamingResponse_def streamLoop_fragments Let_def del: streamLoop.simps)

text \<open>
  Claim C7. When the status is below 400 and the scanner reports no error, the decoder
  returns one choice: an assistant message whose content is the concatenation, in order,
  of the delta contents that the lines read carry, up to and with the first line that ends
  the stream (the done sentinel or a chunk with a finish reason), and the finish reason
  \<open>stop\<close> whatever the chunks reported. The delta content of a chunk is that of its
  first choice. A data line whose chunk does not decode changes nothing: the content is
  the same with the line and without it. With a decoder that reads the two chunks of the
  sample transcript as they are written, the transcript decodes to the content
  \<open>Hi there\<close>.
\<close>

theorem stream_decoding:
  \<open>(StatusCode resp < 400 \<and> ScannerErr resp = None \<longrightarrow>
      handleStreamingResponse decode cfg resp =
        Inr \<lparr>RespID = '''', Object = '''', Created = 0, RespModel = '''',
             Choices =
               [\<lparr>Index = 0,
                 ChoiceMessage =
                   \<lparr>Role = ''assistant'',
                    MsgContent = Str (concat (map (fragment decode)
                                                (linesRead decode (BodyLines resp)))),
                    ToolCalls = [], ToolCallID = '''', Name = ''''\<rparr>,
                 FinishReason = ''stop''\<rparr>]\<rparr>)
   \<and> (dataLine bad \<and> payload bad \<noteq> ''[DONE]'' \<and> decode (payload bad) = Inl err \<longrightarrow>
        streamLoop decode (pre @ bad # post) acc = streamLoop decode (pre @ post) acc)
   \<and> (decode ''{"choices":[{"delta":{"content":"Hi"}}]}''
          = Inr [\<lparr>DeltaContent = ''Hi'', ChunkFinishReason = ''''\<rparr>]
        \<and> decode ''{"choices":[{"delta":{"content":" there"},"finish_reason":"stop"}]}''
          = Inr [\<lparr>DeltaContent = '' there'', ChunkFinishReason = ''stop''\<rparr>] \<longrightarrow>
        handleStreamingResponse decode cfg
          \<lparr>StatusCode = 200, BodyAll = whole,
           BodyLines =
             [''data: {"choices":[{"delta":{"content":"Hi"}}]}'',
              ''data: {"choices":[{"delta":{"content":" there"},"finish_reason":"stop"}]}'',
              ''data: [DONE]''],
           ScannerErr = None\<rparr>
        = Inr \<lparr>RespID = '''', Object = '''', Created = 0, RespModel = '''',
               Choices =
                 [\<lparr>Index = 0,
                   ChoiceMessage =
                     \<lparr>Role = ''assistant'', MsgContent = Str ''Hi there'',
                      ToolCalls = [], ToolCallID = '''', Name = ''''\<rparr>,
                   FinishReason = ''stop''\<rparr>]\<rparr>)\<close>
proof -
  let ?l1 = \<open>''data: {"choices":[{"delta":{"content":"Hi"}}]}''\<close>
  let ?l2 = \<open>''data: {"choices":[{"delta":{"content":" there"},"finish_reason":"stop"}]}''\<close>
  let ?p1 = \<open>''{"choices":[{"delta":{"content":"Hi"}}]}''\<close>
  let ?p2 = \<open>''{"choices":[{"delta":{"content":" there"},"finish_reason":"stop"}]}''\<close>
  have a: "StatusCode resp < 400 \<and> ScannerErr resp = None \<longrightarrow>
      handleStreamingResponse decode cfg resp =
        Inr \<lparr>RespID = '''', Object = '''', Created = 0, RespModel = '''',
             Choices =
               [\<lparr>Index = 0,
                 ChoiceMessage =
                   \<lparr>Role = ''assistant'',
                    MsgContent = Str (concat (map (fragment decode)
                                                (linesRead decode (BodyLines resp)))),
                    ToolCalls = [], ToolCallID = '''', Name = ''''\<rparr>,
                 FinishReason = ''stop''\<rparr>]\<rparr>"
    using handleStreamingResponse_ok by blast
  have b: "dataLine bad \<and> payload bad \<noteq> ''[DONE]'' \<and> decode (payload bad) = Inl err \<longrightarrow>
        streamLoop decode (pre @ bad # post) acc = streamLoop decode (pre @ post) acc"
    by (simp add: streamLoop_fragments linesRead_skip_bad del: streamLoop.simps)
  have d1: "dataLine ?l1" "payload ?l1 = ?p1" by code_simp+
  have d2: "dataLine ?l2" "payload ?l2 = ?p2" by code_simp+
  have n1: "?p1 \<noteq> ''[DONE]''" "?p2 \<noteq> ''[DONE]''" by simp_all
  have c: "decode ?p1 = Inr [\<lparr>DeltaContent = ''Hi'', ChunkFinishReason = ''''\<rparr>]
        \<and> decode ?p2 = Inr [\<lparr>DeltaContent = '' there'', ChunkFinishReason = ''stop''\<rparr>] \<longrightarrow>
        handleStreamingResponse decode cfg
          \<lparr>StatusCode = 200, BodyAll = whole, BodyLines = [?l1, ?l2, ''data: [DONE]''],
           ScannerErr = None\<rparr>
        = Inr \<lparr>RespID = '''', Object = '''', Created = 0, RespModel = '''',
               Choices =
                 [\<lparr>Index = 0,
                   ChoiceMessage =
                     \<lparr>Role = ''assistant'', MsgContent = Str ''Hi there'',
                      ToolCalls = [], ToolCallID = '''', Name = ''''\<rparr>,
                   FinishReason = ''stop''\<rparr>]\<rparr>"
  proof
    assume dec: "decode ?p1 = Inr [\<lparr>DeltaContent = ''Hi'', ChunkFinishReason = ''''\<rparr>]
        \<and> decode ?p2 = Inr [\<lparr>DeltaContent = '' there'', ChunkFinishReason = ''stop''\<rparr>]"
    have e1: "\<not> endsStream decode ?l1" using d1 dec n1 by (simp add: endsStream_def)
    have e2: "endsStream decode ?l2" using d2 dec n1 by (simp add: endsStream_def)
    have f1: "fragment decode ?l1 = ''Hi''" using d1 dec n1 by (simp add: fragment_def)
    have f2: "fragment decode ?l2 = '' there''" using d2 dec n1 by (simp add: fragment_def)
    have "linesRead decode [?l1, ?l2, ''data: [DONE]''] = [?l1, ?l2]"
      using e1 e2 by (simp only: linesRead.simps if_True if_False)
    then have "concat (map (fragment decode) (linesRead decode [?l1, ?l2, ''data: [DONE]'']))
        = ''Hi there''"
      using f1 f2 by (simp only: list.map concat.simps append_Nil2 append.simps)
    then show "handleStreamingResponse decode cfg
          \<lparr>StatusCode = 200, BodyAll = whole, BodyLines = [?l1, ?l2, ''data: [DONE]''],
           ScannerErr = None\<rparr>
        = Inr \<lparr>RespID = '''', Object = '''', Created = 0, RespModel = '''',
               Choices =
                 [\<lparr>Index = 0,
                   ChoiceMessage =
                     \<lparr>Role = ''assistant'', MsgContent = Str ''Hi there'',
                      ToolCalls = [], ToolCallID = '''', Name = ''''\<rparr>,
                   FinishReason = ''stop''\<rparr>]\<rparr>"
      using handleStreamingResponse_ok [of "\<lparr>StatusCode = 200, BodyAll = whole,
          BodyLines = [?l1, ?l2, ''data: [DONE]''], ScannerErr = None\<rparr>" decode cfg]
      by simp
  qed
  from a b c show ?thesis by blast
qed

theorem stream_decoding_witness:
  \<open>handleStreamingResponse sampleDecoder cfg0
      \<lparr>StatusCode = 200, BodyAll = Inr '''',
       BodyLines =
         [''data: {"choices":[{"delta":{"content":"Hi"}}]}'',
          ''data: {"choices":[{"delta":{"content":" there"},"finish_reason":"stop"}]}'',
          ''data: [DONE]''],
       ScannerErr = None\<rparr>
    = Inr \<lparr>RespID = '''', Object = '''', Created = 0, RespModel = '''',
           Choices =
             [\<lparr>Index = 0,
               ChoiceMessage =
                 \<lparr>Role = ''assistant'', MsgContent = Str ''Hi there'',
                  ToolCalls = [], ToolCallID = '''', Name = ''''\<rparr>,
               FinishReason = ''stop''\<rparr>]\<rparr>
   \<and> streamLoop sampleDecoder ([''data: {"choices":[{"delta":{"content":"Hi"}}]}'']
         @ ''data: {"choices":'' # [''data: [DONE]'']) ''''
     = streamLoop sampleDecoder ([''data: {"choices":[{"delta":{"content":"Hi"}}]}'']
         @ [''data: [DONE]'']) ''''\<close>
proof -
  have d: \<open>sampleDecoder ''{"choices":[{"delta":{"content":"Hi"}}]}''
          = Inr [\<lparr>DeltaContent = ''Hi'', ChunkFinishReason = ''''\<rparr>]
        \<and> sampleDecoder ''{"choices":[{"delta":{"content":" there"},"finish_reason":"stop"}]}''
          = Inr [\<lparr>DeltaContent = '' there'', ChunkFinishReason = ''stop''\<rparr>]\<close>
    by (simp add: sampleDecoder_def)
  have bad: \<open>dataLine ''data: {"choices":'' \<and> payload ''data: {"choices":'' \<noteq> ''[DONE]''
      \<and> sampleDecoder (payload ''data: {"choices":'') = Inl ''invalid character''\<close>
    by code_simp
  show ?thesis
    using stream_decoding [where decode = sampleDecoder and cfg = cfg0 and whole = "Inr ''''"
        and bad = \<open>''data: {"choices":''\<close> and err = "''invalid character''"
        and pre = \<open>[''data: {"choices":[{"delta":{"content":"Hi"}}]}'']\<close>
        and post = "[''data: [DONE]'']" and acc = "''''"] d bad
    by blast
qed

section \<open>The conversation loop\<close>

lemma queryLoop_tool_round:
  "toolRound h cfg (history, w) = Some (history', w') \<Longrightarrow>
   queryLoop h cfg (Suc n) history (systemMessage cfg # history) w
     = queryLoop h cfg n history' (systemMessage cfg # history') w'"
  by (auto simp: toolRound_def Let_def split: prod.splits sum.splits list.splits if_splits)

lemma queryLoop_after_rounds:
  "afterRounds h cfg k (history, w) = Some (history', w') \<Longrightarrow>
   queryLoop h cfg (k + n) history (systemMessage cfg # history) w
     = queryLoop h cfg n history' (systemMessage cfg # history') w'"
proof (induction k arbitrary: history w)
  case 0
  then show ?case by simp
next
  case (Suc k)
  from Suc.prems obtain h1 w1 where r: "toolRound h cfg (history, w) = Some (h1, w1)"
    and rest: "afterRounds h cfg k (h1, w1) = Some (history', w')"
    by (auto split: option.splits)
  have "queryLoop h cfg (Suc (k + n)) history (systemMessage cfg # history) w
      = queryLoop h cfg (k + n) h1 (systemMessage cfg # h1) w1"
    using r by (rule queryLoop_tool_round)
  also have "\<dots> = queryLoop h cfg n history' (systemMessage cfg # history') w'"
    using rest by (rule Suc.IH)
  finally show ?case by simp
qed

lemma query_after_rounds:
  assumes "afterRounds h cfg k (messages, w) = Some (history, wk)" "k + n = 20"
  shows "query h cfg messages w = queryLoop h cfg n history (systemMessage cfg # history) wk"
proof -
  have "query h cfg messages w = queryLoop h cfg (k + n) messages (systemMessage cfg # messages) w"
    using assms(2) by (simp add: query_def maxAgentIterations_def)
  then show ?thesis using queryLoop_after_rounds [OF assms(1)] by simp
qed

lemma toolRound_extends:
  "toolRound h cfg (history, w) = Some (history', w') \<Longrightarrow> \<exists>added. history' = history @ added"
  by (auto simp: toolRound_def split: prod.splits sum.splits list.splits if_splits)

lemma afterRounds_extends:
  "afterRounds h cfg k (history, w) = Some (history', w') \<Longrightarrow> \<exists>added. history' = history @ added"
proof (induction k arbitrary: history w)
  case 0
  then show ?case by simp
next
  case (Suc k)
  from Suc.prems obtain h1 w1 where r: "toolRound h cfg (history, w) = Some (h1, w1)"
    and rest: "afterRounds h cfg k (h1, w1) = Some (history', w')"
    by (auto split: option.splits)
  from r obtain a1 where "h1 = history @ a1" using toolRound_extends by blast
  moreover from rest obtain a2 where "history' = h1 @ a2" using Suc.IH by blast
  ultimately have "history' = history @ (a1 @ a2)" by simp
  then show ?case by blast
qed

lemma queryLoop_extends:
  "\<exists>added. fst (fst (queryLoop h cfg n messages fullMessages w)) = messages @ added"
proof (induction n arbitrary: messages fullMessages w)
  case 0
  show ?case by simp
next
  case (Suc n)
  obtain r w1 where c: "callModel h cfg fullMessages w = (r, w1)" by (metis surj_pair)
  show ?case
  proof (cases r)
    case (Inl err)
    with c show ?thesis by simp
  next
    case (Inr resp)
    show ?thesis
    proof (cases "Choices resp")
      case Nil
      with c Inr show ?thesis by simp
    next
      case (Cons choice others)
      let ?am = "ChoiceMessage choice"
      show ?thesis
      proof (cases "FinishReason choice = ''tool_calls'' \<and> length (ToolCalls ?am) > 0")
        case False
        with c Inr Cons show ?thesis by (auto simp: Let_def)
      next
        case True
        obtain results w2 where t: "runToolCalls h cfg (ToolCalls ?am) w1 = (results, w2)"
          by (metis surj_pair)
        obtain added where
          "fst (fst (queryLoop h cfg n ((messages @ [?am]) @ results)
                       ((fullMessages @ [?am]) @ results) w2))
           = ((messages @ [?am]) @ results) @ added"
          using Suc.IH by blast
        then have "fst (fst (queryLoop h cfg (Suc n) messages fullMessages w))
            = messages @ ([?am] @ results @ added)"
          using c Inr Cons True t by (simp add: Let_def)
        then show ?thesis by blast
      qed
    qed
  qed
qed

text \<open>
  Claim C8. Let the first \<open>k\<close> rounds be tool rounds, leaving the history \<open>history\<close>: the
  initial messages followed by the assistant message and the tool results of each of
  these rounds, in order. If \<open>k < 20\<close> and the model call of the next round fails, \<open>query\<close>
  returns \<open>history\<close> and that error, so the history as of before the failing call. If it
  answers with no choice, \<open>query\<close> returns \<open>history\<close> and the error \<open>no choices in
  response\<close>; if its first choice does not ask for tools, \<open>query\<close> returns \<open>history\<close> with
  the assistant message added and no error. If \<open>k = 20\<close>, \<open>query\<close> returns the whole
  \<open>history\<close> and the error \<open>agent max iterations reached\<close>, which no other return of
  \<open>query\<close> builds. In every case the history returned is the initial one with messages
  added at its end.
\<close>

theorem query_history:
  "(k < 20 \<and> afterRounds h cfg k (messages, w) = Some (history, wk)
      \<and> callModel h cfg (systemMessage cfg # history) wk = (Inl err, w1) \<longrightarrow>
      query h cfg messages w = ((history, Some err), w1))
   \<and> (k < 20 \<and> afterRounds h cfg k (messages, w) = Some (history, wk)
      \<and> callModel h cfg (systemMessage cfg # history) wk = (Inr resp, w1)
      \<and> Choices resp = [] \<longrightarrow>
      query h cfg messages w = ((history, Some ''no choices in response''), w1))
   \<and> (k < 20 \<and> afterRounds h cfg k (messages, w) = Some (history, wk)
      \<and> callModel h cfg (systemMessage cfg # history) wk = (Inr resp, w1)
      \<and> Choices resp = choice # others
      \<and> (FinishReason choice \<noteq> ''tool_calls'' \<or> ToolCalls (ChoiceMessage choice) = []) \<longrightarrow>
      query h cfg messages w = ((history @ [ChoiceMessage choice], None), endOfTurn w1))
   \<and> (afterRounds h cfg 20 (messages, w) = Some (history, wk) \<longrightarrow>
      query h cfg messages w = ((history, Some ''agent max iterations reached''), wk))
   \<and> (afterRounds h cfg k (messages, w) = Some (history, wk) \<longrightarrow>
      (\<exists>added. history = messages @ added))
   \<and> (\<exists>added. fst (fst (query h cfg messages w)) = messages @ added)
   \<and> ''agent max iterations reached'' \<noteq> ''no choices in response''"
proof -
  have step: "query h cfg messages w
      = queryLoop h cfg (Suc (19 - k)) history (systemMessage cfg # history) wk"
    if "k < 20" "afterRounds h cfg k (messages, w) = Some (history, wk)"
  proof -
    have "k + Suc (19 - k) = 20" using that(1) by simp
    then show ?thesis using that(2) by (rule query_after_rounds [rotated])
  qed
  have a: "k < 20 \<and> afterRounds h cfg k (messages, w) = Some (history, wk)
      \<and> callModel h cfg (systemMessage cfg # history) wk = (Inl err, w1) \<longrightarrow>
      query h cfg messages w = ((history, Some err), w1)"
    using step by simp
  have b: "k < 20 \<and> afterRounds h cfg k (messages, w) = Some (history, wk)
      \<and> callModel h cfg (systemMessage cfg # history) wk = (Inr resp, w1)
      \<and> Choices resp = [] \<longrightarrow>
      query h cfg messages w = ((history, Some ''no choices in response''), w1)"
    using step by simp
  have c: "k < 20 \<and> afterRounds h cfg k (messages, w) = Some (history, wk)
      \<and> callModel h cfg (systemMessage cfg # history) wk = (Inr resp, w1)
      \<and> Choices resp = choice # others
      \<and> (FinishReason choice \<noteq> ''tool_calls'' \<or> ToolCalls (ChoiceMessage choice) = []) \<longrightarrow>
      query h cfg messages w = ((history @ [ChoiceMessage choice], None), endOfTurn w1)"
    using step by (auto simp: Let_def)
  have d: "afterRounds h cfg 20 (messages, w) = Some (history, wk) \<longrightarrow>
      query h cfg messages w = ((history, Some ''agent max iterations reached''), wk)"
    using query_after_rounds [of h cfg 20 messages w history wk 0] by simp
  have e: "afterRounds h cfg k (messages, w) = Some (history, wk) \<longrightarrow>
      (\<exists>added. history = messages @ added)"
    using afterRounds_extends by blast
  have f: "\<exists>added. fst (fst (query h cfg messages w)) = messages @ added"
    unfolding query_def Let_def by (rule queryLoop_extends)
  have g: "''agent max iterations reached'' \<noteq> ''no choices in response''" by simp
  from a b c d e f g show ?thesis by blast
qed

lemma sample_dispatch:
  assumes "hostExec h = falseRun" "hostUnmarshal h = sampleUnmarshal"
  shows "dispatchToolCall h cfg0 sampleCall w
         = (toolMessage sampleCall
              (''(no output)'' @ [CHR 0x0A] @ ''(exit error: exit status 1)''), w)"
proof -
  have u: "hostUnmarshal h (Arguments (Function sampleCall)) = Inr [(''command'', JString ''false'')]"
    using assms(2) by (simp add: sampleCall_def sampleUnmarshal_def)
  have b: "runBash falseRun cfg0 [(''command'', JString ''false'')] env
      = ((''(no output)'' @ [CHR 0x0A] @ ''(exit error: exit status 1)'', None), env)" for env :: 'a
  proof -
    have c1: "TrimSpace (getString [(''command'', JString ''false'')] ''command'') = ''false''"
      by code_simp
    have c3: "\<not> isDangerousCommand ''false''" by code_simp
    have o: "bashOutput \<lparr>deadlineExceeded = False, stdout = '''', stderr = '''',
                runErr = Some (ExitError ''exit status 1'')\<rparr> = ''(no output)''"
      by code_simp
    have cl: "clampText (''(no output)'' @ [CHR 0x0A] @ ''(exit error: exit status 1)'')
                maxToolResultChars
              = ''(no output)'' @ [CHR 0x0A] @ ''(exit error: exit status 1)''"
      by (simp add: clampText_def maxToolResultChars_def)
    show ?thesis
      unfolding runBash_def Let_def c1 using c3 o cl
      by (simp add: falseRun_def)
  qed
  have r: "runTool h cfg0 (FnName (Function sampleCall)) [(''command'', JString ''false'')] w
      = ((''(no output)'' @ [CHR 0x0A] @ ''(exit error: exit status 1)'', None), w)"
    using assms(1) b by (simp add: runTool_def sampleCall_def onExt_def)
  have m: "clampText (''(no output)'' @ [CHR 0x0A] @ ''(exit error: exit status 1)'')
             (MaxResult cfg0)
           = ''(no output)'' @ [CHR 0x0A] @ ''(exit error: exit status 1)''"
    by (simp add: clampText_def cfg0_def)
  show ?thesis using dispatchToolCall_run [OF u r] m by simp
qed

lemma sample_call:
  assumes "hostDecodeResponse h = sampleDecodeResponse" "hostDo h cfg0 url msgs env = (Inr toolsBody, env')"
    "url = endpointOf (BaseURL cfg0)"
  shows "callOpenAI h cfg0 msgs env = (Inr toolsResponse, env')"
  using assms
  by (simp add: callOpenAI_def cfg0_def handleNonStreamingResponse_def toolsBody_def
      sampleDecodeResponse_def)

lemma sample_tool_round:
  assumes "hostExec h = falseRun" "hostUnmarshal h = sampleUnmarshal"
    "callOpenAI h cfg0 (systemMessage cfg0 # history) (ext w) = (Inr toolsResponse, env')"
  shows "toolRound h cfg0 (history, w)
         = Some (history @ [ChoiceMessage (hd (Choices toolsResponse)),
                            toolMessage sampleCall
                              (''(no output)'' @ [CHR 0x0A] @ ''(exit error: exit status 1)'')],
                 w\<lparr>ext := env'\<rparr>)"
  using assms(3) sample_dispatch [OF assms(1,2)]
  by (simp add: toolRound_def callModel_def toolsResponse_def)

lemma busy_rounds:
  "afterRounds busyHost cfg0 k (history, w)
   = Some (history @ concat (replicate k
        [ChoiceMessage (hd (Choices toolsResponse)),
         toolMessage sampleCall
           (''(no output)'' @ [CHR 0x0A] @ ''(exit error: exit status 1)'')]),
      w\<lparr>ext := ext w + k\<rparr>)"
proof (induction k arbitrary: history w)
  case 0
  show ?case by simp
next
  case (Suc k)
  have "toolRound busyHost cfg0 (history, w)
      = Some (history @ [ChoiceMessage (hd (Choices toolsResponse)),
                            toolMessage sampleCall
                              (''(no output)'' @ [CHR 0x0A] @ ''(exit error: exit status 1)'')],
                 w\<lparr>ext := Suc (ext w)\<rparr>)"
    by (rule sample_tool_round) (simp_all add: busyHost_def sample_call)
  then show ?case using Suc.IH by simp
qed

theorem query_history_witness:
  "query scriptHost cfg0 [userMessage ''hi''] world0
     = (([userMessage ''hi'', ChoiceMessage (hd (Choices toolsResponse)),
          toolMessage sampleCall
            (''(no output)'' @ [CHR 0x0A] @ ''(exit error: exit status 1)'')],
         Some ''connection reset by peer''),
        world0\<lparr>ext := 2\<rparr>)
   \<and> query busyHost cfg0 [userMessage ''hi''] world0
     = (([userMessage ''hi''] @ concat (replicate 20
          [ChoiceMessage (hd (Choices toolsResponse)),
           toolMessage sampleCall
             (''(no output)'' @ [CHR 0x0A] @ ''(exit error: exit status 1)'')]),
         Some ''agent max iterations reached''),
        world0\<lparr>ext := 20\<rparr>)"
proof -
  let ?am = "ChoiceMessage (hd (Choices toolsResponse))"
  let ?tm = "toolMessage sampleCall
            (''(no output)'' @ [CHR 0x0A] @ ''(exit error: exit status 1)'')"
  let ?h1 = "[userMessage ''hi'', ?am, ?tm]"
  have r1: "toolRound scriptHost cfg0 ([userMessage ''hi''], world0)
      = Some ([userMessage ''hi''] @ [?am, ?tm], world0\<lparr>ext := Suc 0\<rparr>)"
    by (rule sample_tool_round) (simp_all add: scriptHost_def world0_def sample_call)
  then have k1: "afterRounds scriptHost cfg0 1 ([userMessage ''hi''], world0)
      = Some (?h1, world0\<lparr>ext := Suc 0\<rparr>)"
    by simp
  have fail: "callModel scriptHost cfg0 (systemMessage cfg0 # ?h1) (world0\<lparr>ext := Suc 0\<rparr>)
      = (Inl ''connection reset by peer'', world0\<lparr>ext := 2\<rparr>)"
    by (simp add: callModel_def callOpenAI_def scriptHost_def world0_def)
  have one: "(1::nat) < 20" by simp
  have first: "query scriptHost cfg0 [userMessage ''hi''] world0
      = ((?h1, Some ''connection reset by peer''), world0\<lparr>ext := 2\<rparr>)"
    using query_history [where h = scriptHost and cfg = cfg0 and k = 1
        and messages = "[userMessage ''hi'']" and w = world0 and history = ?h1
        and wk = "world0\<lparr>ext := Suc 0\<rparr>" and err = "''connection reset by peer''"
        and ?w1.0 = "world0\<lparr>ext := 2\<rparr>"] one k1 fail
    by blast
  have k20: "afterRounds busyHost cfg0 20 ([userMessage ''hi''], world0)
      = Some ([userMessage ''hi''] @ concat (replicate 20 [?am, ?tm]), world0\<lparr>ext := 20\<rparr>)"
    using busy_rounds [of 20 "[userMessage ''hi'']" world0] by (simp add: world0_def)
  have second: "query busyHost cfg0 [userMessage ''hi''] world0
      = (([userMessage ''hi''] @ concat (replicate 20 [?am, ?tm]),
          Some ''agent max iterations reached''), world0\<lparr>ext := 20\<rparr>)"
    using query_history [where h = busyHost and cfg = cfg0
        and messages = "[userMessage ''hi'']" and w = world0
        and history = "[userMessage ''hi''] @ concat (replicate 20 [?am, ?tm])"
        and wk = "world0\<lparr>ext := 20\<rparr>"] k20
    by blast
  from first second show ?thesis by simp
qed

end
